theory Spec2Isabelle
  imports Main "HOL-Library.AList"
begin

section \<open>JavaScript values\<close>

text \<open>
  The values that flow through \<^verbatim>\<open>index.js\<close>: settings read from
  \<^verbatim>\<open>settings.json\<close>, error objects and response bodies. An object is an
  association list read through \<open>map_of\<close>; numbers are integers (status codes and
  byte counts are the only numbers the code handles).
\<close>

datatype jsval =
    JUndefined
  | JNull
  | JBool bool
  | JNum int
  | JStr string
  | JObj "(string \<times> jsval) list"

type_synonym obj = "(string \<times> jsval) list"

text \<open>What a JavaScript expression can throw here: a \<^verbatim>\<open>TypeError\<close> raised by the
  runtime, or a value thrown by \<^verbatim>\<open>emit('error', v)\<close> when nobody listens.\<close>

datatype exn = TypeError | Thrown jsval

text \<open>\<^verbatim>\<open>if (v)\<close>, \<^verbatim>\<open>v && ...\<close>, \<^verbatim>\<open>v || ...\<close>.\<close>

fun truthy :: "jsval \<Rightarrow> bool" where
  "truthy JUndefined = False"
| "truthy JNull = False"
| "truthy (JBool b) = b"
| "truthy (JNum n) = (n \<noteq> 0)"
| "truthy (JStr s) = (s \<noteq> [])"
| "truthy (JObj kvs) = True"

text \<open>\<^verbatim>\<open>o[k]\<close> on an object: \<^verbatim>\<open>undefined\<close> when the key is missing.\<close>

definition lookup :: "obj \<Rightarrow> string \<Rightarrow> jsval" where
  "lookup kvs k = (case map_of kvs k of None \<Rightarrow> JUndefined | Some v \<Rightarrow> v)"

text \<open>
  \<^verbatim>\<open>v.k\<close> on any value: reading a property of \<^verbatim>\<open>undefined\<close> or \<^verbatim>\<open>null\<close>
  throws a \<^verbatim>\<open>TypeError\<close>; a boolean, number or string has none of the properties
  the code reads (\<^verbatim>\<open>type\<close>, \<^verbatim>\<open>baseFolder\<close>, \<^verbatim>\<open>baseURL\<close>, \<^verbatim>\<open>statusCode\<close>).
\<close>

fun get_prop :: "jsval \<Rightarrow> string \<Rightarrow> exn + jsval" where
  "get_prop JUndefined k = Inl TypeError"
| "get_prop JNull k = Inl TypeError"
| "get_prop (JObj kvs) k = Inr (lookup kvs k)"
| "get_prop (JBool b) k = Inr JUndefined"
| "get_prop (JNum n) k = Inr JUndefined"
| "get_prop (JStr s) k = Inr JUndefined"

text \<open>\<^verbatim>\<open>a || b\<close>.\<close>

definition js_or :: "jsval \<Rightarrow> jsval \<Rightarrow> jsval" where
  "js_or a b = (if truthy a then a else b)"

section \<open>Settings and the clientVars hook\<close>

text \<open>
  The process-wide settings object. Only its \<^verbatim>\<open>ep_image_upload\<close> member is read;
  \<open>None\<close> is a settings file without that section.
\<close>

record settings =
  ep_image_upload :: "obj option"

text \<open>The body of \<^verbatim>\<open>keys.forEach\<close> in \<^verbatim>\<open>clientVars\<close>.\<close>

definition copy_key :: "obj \<Rightarrow> string \<Rightarrow> obj \<Rightarrow> obj" where
  "copy_key ep key pluginSettings =
     (if key \<noteq> ''storage'' then AList.update key (lookup ep key) pluginSettings
      else pluginSettings)"

text \<open>Lines 37 to 39: the section, or the empty object installed in its place.\<close>

definition plugin_section :: "settings \<Rightarrow> obj" where
  "plugin_section st = (case ep_image_upload st of None \<Rightarrow> [] | Some e \<Rightarrow> e)"

text \<open>
  \<^verbatim>\<open>exports.clientVars\<close>. The mime-db table is the parameter \<open>mimetypes\<close>. The result
  is the settings object after the call (the hook installs an empty section when there is
  none) and the object handed to the callback. \<^verbatim>\<open>!pluginSettings\<close> is never true of an
  object, so the warning branch is not part of the model.
\<close>

definition clientVars :: "jsval \<Rightarrow> settings \<Rightarrow> exn + (settings \<times> obj)" where
  "clientVars mimetypes st =
     (let ep = plugin_section st;
          st' = st\<lparr>ep_image_upload := Some ep\<rparr>;
          pluginSettings =
            fold (copy_key ep) (map fst ep) [(''storageType'', JStr ''base64'')];
          storage = lookup ep ''storage''
      in if truthy storage then
           (case get_prop storage ''type'' of
              Inl ex \<Rightarrow> Inl ex
            | Inr t \<Rightarrow>
                Inr (st',
                  [(''ep_image_upload'',
                    JObj (AList.update ''mimeTypes'' mimetypes
                      (if t \<noteq> JStr ''base64''
                       then AList.update ''storageType'' t pluginSettings
                       else pluginSettings)))]))
         else
           Inr (st',
             [(''ep_image_upload'',
               JObj (AList.update ''mimeTypes'' mimetypes pluginSettings))]))"

section \<open>Node's path module (POSIX)\<close>

text \<open>
  \<^verbatim>\<open>path.extname\<close> and \<^verbatim>\<open>path.join\<close> are library functions of the runtime; they
  are modelled on path segments. \<^verbatim>\<open>extname\<close> looks at the last component of the path
  (trailing separators dropped) and returns the text from its last dot, or the empty
  string when there is no dot, when the last dot is the component's first character, or
  when the component is \<^verbatim>\<open>..\<close>.
\<close>

definition is_sep :: "char \<Rightarrow> bool" where
  "is_sep c = (c = CHR ''/'')"

definition last_component :: "string \<Rightarrow> string" where
  "last_component p =
     rev (takeWhile (\<lambda>c. \<not> is_sep c) (dropWhile is_sep (rev p)))"

definition path_extname :: "string \<Rightarrow> string" where
  "path_extname p =
     (let b = last_component p;
          e = rev (takeWhile (\<lambda>c. c \<noteq> CHR ''.'') (rev b))
      in if CHR ''.'' \<notin> set b then []
         else if length b = Suc (length e) then []
         else if b = ''..'' then []
         else CHR ''.'' # e)"

text \<open>Splitting at every separator: \<^verbatim>\<open>a//b\<close> has the segments \<^verbatim>\<open>a\<close>, the empty
  one and \<^verbatim>\<open>b\<close>.\<close>

fun split_sep :: "string \<Rightarrow> string list" where
  "split_sep [] = [[]]"
| "split_sep (c # cs) =
     (if is_sep c then [] # split_sep cs
      else (case split_sep cs of s # ss \<Rightarrow> (c # s) # ss | [] \<Rightarrow> [[c]]))"

fun join_sep :: "string list \<Rightarrow> string" where
  "join_sep [] = []"
| "join_sep [s] = s"
| "join_sep (s # t # ss) = s @ CHR ''/'' # join_sep (t # ss)"

text \<open>
  \<^verbatim>\<open>normalizeString\<close>: empty and \<^verbatim>\<open>.\<close> segments are dropped; \<^verbatim>\<open>..\<close> removes the
  segment before it, unless there is none or it is itself \<^verbatim>\<open>..\<close>, in which case it is
  kept for a relative path and dropped for an absolute one.
\<close>

fun norm_segs :: "bool \<Rightarrow> string list \<Rightarrow> string list \<Rightarrow> string list" where
  "norm_segs allowAboveRoot res [] = res"
| "norm_segs allowAboveRoot res (s # ss) =
     (if s = [] \<or> s = ''.'' then norm_segs allowAboveRoot res ss
      else if s = ''..'' then
        (if res \<noteq> [] \<and> last res \<noteq> ''..'' then norm_segs allowAboveRoot (butlast res) ss
         else if allowAboveRoot then norm_segs allowAboveRoot (res @ [''..'']) ss
         else norm_segs allowAboveRoot res ss)
      else norm_segs allowAboveRoot (res @ [s]) ss)"

definition path_normalize :: "string \<Rightarrow> string" where
  "path_normalize p =
     (if p = [] then ''.''
      else
        let isAbsolute = is_sep (hd p);
            trailingSeparator = is_sep (last p);
            q = join_sep (norm_segs (\<not> isAbsolute) [] (split_sep p))
        in if q = [] then
             (if isAbsolute then ''/'' else if trailingSeparator then ''./'' else ''.'')
           else (if isAbsolute then ''/'' else []) @ q
                  @ (if trailingSeparator then ''/'' else []))"

definition path_join :: "string list \<Rightarrow> string" where
  "path_join args =
     (let joined = join_sep (filter (\<lambda>a. a \<noteq> []) args)
      in if joined = [] then ''.'' else path_normalize joined)"

section \<open>The URL constructor\<close>

text \<open>
  \<^verbatim>\<open>new url.URL(relative, base)\<close> belongs to the runtime. The handler takes it as a
  parameter \<open>mkURL\<close> that returns the serialised URL (what \<^verbatim>\<open>res.json\<close> writes for
  a URL object) or \<open>None\<close> when the constructor throws.

  \<open>plain_URL\<close> is the standard's resolution of a relative reference on plain inputs:
  base \<^verbatim>\<open>http://host/path\<close> or \<^verbatim>\<open>https://host:port/path\<close>, the host made of
  labels of lower-case letters, digits and hyphens of which the last starts with a letter
  (so it is a domain, not an address) and none starts with \<^verbatim>\<open>xn--\<close>, the port decimal,
  path and reference made of unreserved characters and separators, the reference not
  starting with a separator. There the reference replaces the last segment of the base's
  path, dot segments are removed, and the port is written without leading zeros unless it
  is the scheme's default; a port above 65535 is refused, as the constructor refuses it.
  On every other input \<open>plain_URL\<close> is \<open>None\<close> and is not a model of the constructor
  (which lower-cases, percent-encodes and reads addresses); it is applied to plain inputs
  only.
\<close>

definition unreserved :: "char \<Rightarrow> bool" where
  "unreserved c =
     (c \<in> set ''abcdefghijklmnopqrstuvwxyzABCDEFGHIJKLMNOPQRSTUVWXYZ0123456789-._~'')"

definition lower_alpha :: "char \<Rightarrow> bool" where
  "lower_alpha c = (c \<in> set ''abcdefghijklmnopqrstuvwxyz'')"

definition digit_char :: "char \<Rightarrow> bool" where
  "digit_char c = (c \<in> set ''0123456789'')"

definition host_char :: "char \<Rightarrow> bool" where
  "host_char c = (lower_alpha c \<or> digit_char c \<or> c = CHR ''-'')"

text \<open>The labels of a host name: the text between its dots.\<close>

fun split_dot :: "string \<Rightarrow> string list" where
  "split_dot [] = [[]]"
| "split_dot (c # cs) =
     (if c = CHR ''.'' then [] # split_dot cs
      else (case split_dot cs of s # ss \<Rightarrow> (c # s) # ss | [] \<Rightarrow> [[c]]))"

definition plain_label :: "string \<Rightarrow> bool" where
  "plain_label l = (l \<noteq> [] \<and> list_all host_char l \<and> take 4 l \<noteq> ''xn--'')"

definition plain_host :: "string \<Rightarrow> bool" where
  "plain_host h =
     (list_all plain_label (split_dot h) \<and> lower_alpha (hd (last (split_dot h))))"

definition port_value :: "string \<Rightarrow> nat" where
  "port_value ds = foldl (\<lambda>n c. 10 * n + (of_char c - 48)) 0 ds"

definition default_port :: "string \<Rightarrow> nat" where
  "default_port scheme = (if scheme = ''http://'' then 80 else 443)"

definition port_suffix :: "string \<Rightarrow> string \<Rightarrow> string" where
  "port_suffix scheme ds =
     (if ds = [] \<or> port_value ds = default_port scheme then []
      else CHR '':'' #
        (if dropWhile (\<lambda>c. c = CHR ''0'') ds = [] then ''0''
         else dropWhile (\<lambda>c. c = CHR ''0'') ds))"

definition plain_path :: "string \<Rightarrow> bool" where
  "plain_path p = list_all (\<lambda>c. unreserved c \<or> is_sep c) p"

fun url_segs :: "string list \<Rightarrow> string list \<Rightarrow> string list" where
  "url_segs path [] = path"
| "url_segs path (s # ss) =
     (if s = ''..'' then
        (if ss = [] then butlast path @ [[]] else url_segs (butlast path) ss)
      else if s = ''.'' then
        (if ss = [] then path @ [[]] else url_segs path ss)
      else url_segs (path @ [s]) ss)"

definition strip_scheme :: "string \<Rightarrow> (string \<times> string) option" where
  "strip_scheme base =
     (if take 7 base = ''http://'' then Some (''http://'', drop 7 base)
      else if take 8 base = ''https://'' then Some (''https://'', drop 8 base)
      else None)"

definition plain_URL :: "string \<Rightarrow> string \<Rightarrow> string option" where
  "plain_URL relative base =
     (case strip_scheme base of
        None \<Rightarrow> None
      | Some (scheme, rest) \<Rightarrow>
          let authority = takeWhile (\<lambda>c. \<not> is_sep c) rest;
              path = dropWhile (\<lambda>c. \<not> is_sep c) rest;
              host = takeWhile (\<lambda>c. c \<noteq> CHR '':'') authority;
              port = drop 1 (dropWhile (\<lambda>c. c \<noteq> CHR '':'') authority)
          in if plain_host host \<and> list_all digit_char port \<and> port_value port \<le> 65535
                \<and> plain_path path
                \<and> relative \<noteq> [] \<and> \<not> is_sep (hd relative) \<and> plain_path relative
             then Some (scheme @ host @ port_suffix scheme port @ CHR ''/'' #
                    join_sep (url_segs (butlast (url_segs [] (split_sep (drop 1 path))))
                                (split_sep relative)))
             else None)"

section \<open>The upload session\<close>

text \<open>
  One POST request. The promise returned by \<^verbatim>\<open>imageUpload.upload\<close> belongs to the
  storage library; how it settles is given with the file part that started it.
\<close>

datatype promise = Resolves jsval | Rejects jsval | Pending

text \<open>
  What the handler does to the outside world, in the order it does it:
  \<^verbatim>\<open>console.error(.., error)\<close>, \<^verbatim>\<open>res.status(status).json(body)\<close>,
  \<^verbatim>\<open>req.unpipe(busboy)\<close>, \<^verbatim>\<open>drainStream(req)\<close>,
  \<^verbatim>\<open>busboy.removeAllListeners()\<close>, \<^verbatim>\<open>imageUpload.deletePartials()\<close>,
  \<^verbatim>\<open>imageUpload.upload(file, {type, filename})\<close> with its type and file name, and an
  exception that no listener of the handler catches.
\<close>

datatype effect =
    LogError jsval
  | Respond jsval jsval
  | Unpipe
  | Drain
  | RemoveAllListeners
  | DeletePartials
  | Upload string string
  | Uncaught exn

text \<open>
  The variables the closures of the request handler share (\<^verbatim>\<open>isDone\<close>,
  \<^verbatim>\<open>uploadResult\<close>, \<^verbatim>\<open>accessPath\<close>), whether the parser still has the handler's
  listeners, whether a file stream has its \<^verbatim>\<open>limit\<close> and \<^verbatim>\<open>error\<close> listeners,
  and the effects so far. \<^verbatim>\<open>accessPath\<close> holds the serialised URL; the empty string
  is its initial, falsy value.
\<close>

record session =
  isDone :: bool
  uploadResult :: "promise option"
  accessPath :: string
  listeners :: bool
  fileListeners :: bool
  trace :: "effect list"

definition init_session :: session where
  "init_session =
     \<lparr>isDone = False, uploadResult = None, accessPath = [], listeners = True,
      fileListeners = False, trace = []\<rparr>"

definition perform :: "effect list \<Rightarrow> session \<Rightarrow> session" where
  "perform es s = s\<lparr>trace := trace s @ es\<rparr>"

text \<open>An exception that leaves an event listener.\<close>

definition uncaught :: "exn \<Rightarrow> session \<Rightarrow> session" where
  "uncaught ex s = perform [Uncaught ex] s"

text \<open>
  \<^verbatim>\<open>done\<close> (lines 106 to 120). The first component is the exception the call ends
  with, if any: \<^verbatim>\<open>error.statusCode\<close> throws on \<^verbatim>\<open>undefined\<close> and \<^verbatim>\<open>null\<close>,
  after \<^verbatim>\<open>isDone\<close> has been set.
\<close>

definition done_cb :: "jsval \<Rightarrow> session \<Rightarrow> exn option \<times> session" where
  "done_cb error s =
     (if truthy error then (None, perform [LogError error] s)
      else if isDone s then (None, s)
      else
        let s1 = s\<lparr>isDone := True\<rparr> in
        case get_prop error ''statusCode'' of
          Inl ex \<Rightarrow> (Some ex, s1)
        | Inr statusCode \<Rightarrow>
            (None,
             (perform [Respond (js_or statusCode (JNum 500)) error, Unpipe, Drain,
                       RemoveAllListeners] s1)\<lparr>listeners := False\<rparr>))"

text \<open>\<^verbatim>\<open>busboy.emit('error', error)\<close>: with no listener the emitter throws the value.\<close>

definition emit_error :: "jsval \<Rightarrow> session \<Rightarrow> exn option \<times> session" where
  "emit_error error s = (if listeners s then done_cb error s else (Some (Thrown error), s))"

definition file_too_large :: jsval where
  "file_too_large =
     JObj [(''message'', JStr ''File is too large''), (''type'', JStr ''fileSize''),
           (''statusCode'', JNum 403)]"

text \<open>The \<^verbatim>\<open>limit\<close> listener of a file stream (lines 136 to 142).\<close>

definition on_limit :: "session \<Rightarrow> session" where
  "on_limit s =
     (case emit_error file_too_large s of
        (Some ex, s1) \<Rightarrow> uncaught ex s1
      | (None, s1) \<Rightarrow> perform [DeletePartials] s1)"

text \<open>The \<^verbatim>\<open>error\<close> listener of a file stream, and an error the parser emits itself.\<close>

definition on_error :: "jsval \<Rightarrow> session \<Rightarrow> session" where
  "on_error error s =
     (case emit_error error s of
        (Some ex, s1) \<Rightarrow> uncaught ex s1
      | (None, s1) \<Rightarrow> s1)"

text \<open>Lines 129 to 132: the local variable \<^verbatim>\<open>baseURL\<close> after the \<^verbatim>\<open>if\<close>.\<close>

definition normalize_baseURL :: "string \<Rightarrow> string" where
  "normalize_baseURL b = (if b = [] \<or> last b \<noteq> CHR ''/'' then b @ ''/'' else b)"

text \<open>Lines 136 to 148: the two listeners are attached and the upload starts.\<close>

definition start_upload :: "string \<Rightarrow> string \<Rightarrow> promise \<Rightarrow> session \<Rightarrow> session" where
  "start_upload mimetype savedFilename p s =
     (perform [Upload mimetype savedFilename] s)
       \<lparr>fileListeners := True, uploadResult := Some p\<rparr>"

text \<open>
  The \<^verbatim>\<open>file\<close> listener (lines 125 to 149). \<open>newFileName\<close> is the identifier drawn by
  \<^verbatim>\<open>uuid.v4()\<close> on line 123, once for the request. The parser hands the listener the
  part's file name, or \<^verbatim>\<open>undefined\<close> (here \<open>None\<close>) for a part that has none;
  \<^verbatim>\<open>path.extname\<close> on line 126 then throws a \<^verbatim>\<open>TypeError\<close> before anything else
  is done. \<^verbatim>\<open>baseURL.charAt\<close> and \<^verbatim>\<open>path.join\<close> throw a \<^verbatim>\<open>TypeError\<close> on
  anything but a string. The URL is built from
  \<^verbatim>\<open>settings.ep_image_upload.storage.baseURL\<close>, as line 133 has it.
\<close>

definition on_file ::
  "(string \<Rightarrow> string \<Rightarrow> string option) \<Rightarrow> settings \<Rightarrow> string \<Rightarrow> string \<Rightarrow>
     string option \<Rightarrow> string \<Rightarrow> promise \<Rightarrow> session \<Rightarrow> session" where
  "on_file mkURL st padId newFileName filename mimetype p s =
     (case filename of
        None \<Rightarrow> uncaught TypeError s
      | Some name \<Rightarrow>
     (let savedFilename = path_join [padId, newFileName @ path_extname name] in
      case ep_image_upload st of
        None \<Rightarrow> uncaught TypeError s
      | Some ep \<Rightarrow>
          let storage = lookup ep ''storage'' in
          if truthy storage \<and> get_prop storage ''type'' = Inr (JStr ''local'') then
            (case get_prop storage ''baseURL'' of
               Inr (JStr b) \<Rightarrow>
                 let baseURL = normalize_baseURL b in
                 (case mkURL savedFilename b of
                    None \<Rightarrow> uncaught TypeError s
                  | Some href \<Rightarrow>
                      let s1 = s\<lparr>accessPath := href\<rparr> in
                      (case get_prop storage ''baseFolder'' of
                         Inr (JStr baseFolder) \<Rightarrow>
                           start_upload mimetype (path_join [baseFolder, savedFilename]) p s1
                       | _ \<Rightarrow> uncaught TypeError s1))
             | _ \<Rightarrow> uncaught TypeError s)
          else start_upload mimetype savedFilename p s))"

text \<open>
  The \<^verbatim>\<open>finish\<close> listener (lines 152 to 164). The callbacks of \<^verbatim>\<open>then\<close> and
  \<^verbatim>\<open>catch\<close> run when the promise settles; the model runs them at the event.
\<close>

definition on_finish :: "session \<Rightarrow> session" where
  "on_finish s =
     (case uploadResult s of
        None \<Rightarrow> s
      | Some (Resolves data) \<Rightarrow>
          perform [Respond (JNum 201)
                     (if accessPath s \<noteq> [] then JStr (accessPath s) else data)] s
      | Some (Rejects err) \<Rightarrow> perform [Respond (JNum 500) err] s
      | Some Pending \<Rightarrow> s)"

text \<open>
  The events of one request: the parser's \<^verbatim>\<open>file\<close> for a part with a file name
  (filename, mimetype and the promise its upload will return) and for a part without one
  (\<^verbatim>\<open>filename\<close> is \<^verbatim>\<open>undefined\<close>), a file stream's \<^verbatim>\<open>limit\<close> and
  \<^verbatim>\<open>error\<close>, the parser's own \<^verbatim>\<open>error\<close> and its \<^verbatim>\<open>finish\<close>.
\<close>

datatype event =
    FilePart string string promise
  | UnnamedFilePart string promise
  | FileLimit
  | FileError jsval
  | ParserError jsval
  | Finish

text \<open>
  A parser event reaches the handler's listener only while the listeners are attached;
  an \<^verbatim>\<open>error\<close> event with no listener is thrown by the emitter. A file stream's
  event reaches its listener once a \<^verbatim>\<open>file\<close> listener has attached it.
\<close>

fun step ::
  "(string \<Rightarrow> string \<Rightarrow> string option) \<Rightarrow> settings \<Rightarrow> string \<Rightarrow> string \<Rightarrow>
     event \<Rightarrow> session \<Rightarrow> session" where
  "step mkURL st padId newFileName (FilePart filename mimetype p) s =
     (if listeners s
      then on_file mkURL st padId newFileName (Some filename) mimetype p s else s)"
| "step mkURL st padId newFileName (UnnamedFilePart mimetype p) s =
     (if listeners s then on_file mkURL st padId newFileName None mimetype p s else s)"
| "step mkURL st padId newFileName FileLimit s =
     (if fileListeners s then on_limit s else s)"
| "step mkURL st padId newFileName (FileError error) s =
     (if fileListeners s then on_error error s else s)"
| "step mkURL st padId newFileName (ParserError error) s = on_error error s"
| "step mkURL st padId newFileName Finish s =
     (if listeners s then on_finish s else s)"

definition run ::
  "(string \<Rightarrow> string \<Rightarrow> string option) \<Rightarrow> settings \<Rightarrow> string \<Rightarrow> string \<Rightarrow>
     event list \<Rightarrow> session \<Rightarrow> session" where
  "run mkURL st padId newFileName evs s =
     fold (step mkURL st padId newFileName) evs s"

text \<open>The responses among the effects.\<close>

fun is_response :: "effect \<Rightarrow> bool" where
  "is_response (Respond status body) = True"
| "is_response e = False"

definition responses :: "session \<Rightarrow> effect list" where
  "responses s = filter is_response (trace s)"

section \<open>The request handler up to \<^verbatim>\<open>req.pipe\<close>\<close>

text \<open>
  Lines 82 to 103 and 165. The options object of \<^verbatim>\<open>new StreamUpload\<close> is evaluated
  member by member, so a missing section or a missing \<^verbatim>\<open>storage\<close> throws before
  \<^verbatim>\<open>storageConfig\<close> is looked at. \<open>busboyError\<close> is what \<^verbatim>\<open>new Busboy\<close> throws,
  if it throws.
\<close>

record uploader =
  extensions :: jsval
  maxSize :: jsval
  baseFolder :: jsval
  storage :: jsval

datatype handled =
    Threw exn
  | NextError jsval
  | Piped uploader session
  | NoAction uploader

definition post_handler :: "settings \<Rightarrow> jsval option \<Rightarrow> handled" where
  "post_handler st busboyError =
     (case ep_image_upload st of
        None \<Rightarrow> Threw TypeError
      | Some ep \<Rightarrow>
          (case get_prop (lookup ep ''storage'') ''baseFolder'' of
             Inl ex \<Rightarrow> Threw ex
           | Inr folder \<Rightarrow>
               let imageUpload =
                     \<lparr>extensions = lookup ep ''fileTypes'',
                      maxSize = lookup ep ''maxFileSize'',
                      baseFolder = folder,
                      storage = lookup ep ''storage''\<rparr>;
                   storageConfig = lookup ep ''storage''
               in if truthy storageConfig then
                    (case busboyError of
                       Some error \<Rightarrow> NextError error
                     | None \<Rightarrow> Piped imageUpload init_session)
                  else NoAction imageUpload))"

text \<open>The effects of the handler itself, before any parser event.\<close>

fun handled_trace :: "handled \<Rightarrow> effect list" where
  "handled_trace (Threw ex) = []"
| "handled_trace (NextError error) = [LogError error]"
| "handled_trace (Piped u s) = trace s"
| "handled_trace (NoAction u) = []"

section \<open>The multipart parser\<close>

text \<open>
  The parser library is not part of the repository. What the handler relies on: each
  file part is announced by a \<^verbatim>\<open>file\<close> event, with the part's file name if it has
  one; its stream emits \<^verbatim>\<open>limit\<close> when the part has more bytes than
  \<^verbatim>\<open>limits.fileSize\<close>, which is a limit only when it is a number; \<^verbatim>\<open>finish\<close>
  comes last, once.
\<close>

record part =
  part_filename :: "string option"
  part_mimetype :: string
  part_size :: nat
  part_upload :: promise

definition fileSizeLimit :: "settings \<Rightarrow> nat option" where
  "fileSizeLimit st =
     (case ep_image_upload st of
        None \<Rightarrow> None
      | Some ep \<Rightarrow>
          (case lookup ep ''maxFileSize'' of JNum n \<Rightarrow> Some (nat n) | _ \<Rightarrow> None))"

definition part_events :: "nat option \<Rightarrow> part \<Rightarrow> event list" where
  "part_events limit pt =
     (case part_filename pt of
        Some name \<Rightarrow> FilePart name (part_mimetype pt) (part_upload pt)
      | None \<Rightarrow> UnnamedFilePart (part_mimetype pt) (part_upload pt)) #
       (case limit of
          None \<Rightarrow> []
        | Some m \<Rightarrow> if m < part_size pt then [FileLimit] else [])"

text \<open>
  The request reaches the parser through \<^verbatim>\<open>req.pipe(busboy)\<close> (line 165), chunk by
  chunk. An \<^verbatim>\<open>error\<close> event on the parser, the parser's own or the one the handler
  emits for a file stream's \<^verbatim>\<open>limit\<close> or \<^verbatim>\<open>error\<close>, makes the pipe detach the
  request: the events of the chunk being parsed still occur, no later chunk reaches the
  parser. The handler emits one for the \<^verbatim>\<open>limit\<close> and the \<^verbatim>\<open>error\<close> of every file
  stream whose \<^verbatim>\<open>file\<close> listener has attached its listeners. \<open>delivered\<close> takes the
  events the parser would emit for each chunk and gives those that occur.
\<close>

fun detaches :: "event \<Rightarrow> bool" where
  "detaches FileLimit = True"
| "detaches (FileError error) = True"
| "detaches (ParserError error) = True"
| "detaches ev = False"

fun delivered :: "event list list \<Rightarrow> event list" where
  "delivered [] = []"
| "delivered (chunk # chunks) =
     (if list_ex detaches chunk then chunk else chunk @ delivered chunks)"

text \<open>
  The events of a body that reaches the parser in a single chunk: every part is parsed
  within that chunk, the closing boundary with it, so \<^verbatim>\<open>finish\<close> follows whether or
  not a limit was hit. A body of several chunks is described chunk by chunk with
  \<open>delivered\<close>.
\<close>

definition busboy_events :: "settings \<Rightarrow> part list \<Rightarrow> event list" where
  "busboy_events st parts =
     delivered [concat (map (part_events (fileSizeLimit st)) parts) @ [Finish]]"

section \<open>Predicates on events and traces\<close>

fun is_file_part :: "event \<Rightarrow> bool" where
  "is_file_part (FilePart name mime p) = True"
| "is_file_part (UnnamedFilePart mime p) = True"
| "is_file_part ev = False"

fun is_finish :: "event \<Rightarrow> bool" where
  "is_finish Finish = True"
| "is_finish ev = False"

text \<open>Streams emit \<^verbatim>\<open>Error\<close> objects with their \<^verbatim>\<open>error\<close> event: truthy values.\<close>

fun error_is_truthy :: "event \<Rightarrow> bool" where
  "error_is_truthy (FileError error) = truthy error"
| "error_is_truthy (ParserError error) = truthy error"
| "error_is_truthy ev = True"

text \<open>What \<^verbatim>\<open>done\<close> does after writing its response (lines 117 to 119).\<close>

fun is_cleanup :: "effect \<Rightarrow> bool" where
  "is_cleanup Unpipe = True"
| "is_cleanup Drain = True"
| "is_cleanup RemoveAllListeners = True"
| "is_cleanup e = False"

fun status_201_or_500 :: "effect \<Rightarrow> bool" where
  "status_201_or_500 (Respond status body) = (status = JNum 201 \<or> status = JNum 500)"
| "status_201_or_500 e = True"

text \<open>\<open>a\<close> occurs in the trace before the first \<open>b\<close>.\<close>

definition precedes :: "effect \<Rightarrow> effect \<Rightarrow> effect list \<Rightarrow> bool" where
  "precedes a b es = (a \<in> set (takeWhile (\<lambda>e. e \<noteq> b) es))"

text \<open>
  A pad identifier that is one ordinary path segment, and an identifier as
  \<^verbatim>\<open>uuid.v4()\<close> returns them (hexadecimal digits and hyphens): not empty, no
  separator, no leading dot.
\<close>

definition plain_segment :: "string \<Rightarrow> bool" where
  "plain_segment s =
     (s \<noteq> [] \<and> s \<noteq> ''.'' \<and> s \<noteq> ''..'' \<and> list_all (\<lambda>c. \<not> is_sep c) s)"

definition plain_id :: "string \<Rightarrow> bool" where
  "plain_id s = (s \<noteq> [] \<and> hd s \<noteq> CHR ''.'' \<and> list_all (\<lambda>c. \<not> is_sep c) s)"

section \<open>Two configurations\<close>

text \<open>
  The local configuration of the specification's scenarios, and an object-storage one.
  An array is an object with index keys.
\<close>

definition local_settings :: settings where
  "local_settings =
     \<lparr>ep_image_upload = Some
        [(''fileTypes'', JObj [(''0'', JStr ''png'')]),
         (''maxFileSize'', JNum 1000),
         (''storage'', JObj [(''type'', JStr ''local''),
                            (''baseFolder'', JStr ''/tmp/up''),
                            (''baseURL'', JStr ''http://x/files'')])]\<rparr>"

definition s3_settings :: settings where
  "s3_settings =
     \<lparr>ep_image_upload = Some
        [(''maxFileSize'', JNum 1000),
         (''storage'', JObj [(''type'', JStr ''s3''),
                            (''accessKeyId'', JStr ''AKIAEXAMPLE''),
                            (''secretAccessKey'', JStr ''wJalrXUtnFEMI''),
                            (''region'', JStr ''eu-west-1''),
                            (''bucket'', JStr ''pads''),
                            (''baseFolder'', JStr ''images'')])]\<rparr>"

text \<open>An identifier as \<^verbatim>\<open>uuid.v4()\<close> returns them.\<close>

definition id1 :: string where
  "id1 = ''110ec58a-a0f2-4ac4-8393-c866d813b8d1''"

text \<open>A PNG file part of \<open>n\<close> bytes.\<close>

definition png_part :: "string \<Rightarrow> nat \<Rightarrow> promise \<Rightarrow> part" where
  "png_part name n p =
     \<lparr>part_filename = Some name, part_mimetype = ''image/png'', part_size = n,
      part_upload = p\<rparr>"

text \<open>An error of the parser, and one as the object store's client rejects with.\<close>

definition parse_error :: jsval where
  "parse_error = JObj [(''message'', JStr ''Unexpected end of multipart data'')]"

definition access_denied :: jsval where
  "access_denied =
     JObj [(''message'', JStr ''Access Denied''), (''code'', JStr ''AccessDenied''),
           (''statusCode'', JNum 403)]"


section \<open>Facts about paths\<close>

lemma split_sep_plain: "list_all (\<lambda>c. \<not> is_sep c) a \<Longrightarrow> split_sep a = [a]"
  by (induction a) simp_all

lemma split_sep_append:
  "list_all (\<lambda>c. \<not> is_sep c) a \<Longrightarrow> split_sep (a @ CHR ''/'' # b) = a # split_sep b"
  by (induction a) (simp_all add: is_sep_def)

lemma extname_no_sep: "list_all (\<lambda>c. \<not> is_sep c) (path_extname p)"
proof -
  let ?b = "last_component p"
  have b: "\<forall>c\<in>set ?b. \<not> is_sep c"
    by (auto simp: last_component_def dest: set_takeWhileD)
  have "\<forall>c\<in>set (rev (takeWhile (\<lambda>c. c \<noteq> CHR ''.'') (rev ?b))). \<not> is_sep c"
    using b by (auto dest: set_takeWhileD)
  then show ?thesis
    by (simp add: path_extname_def Let_def list_all_iff is_sep_def)
qed

lemma path_join_plain:
  assumes "plain_segment a" and "plain_id b" and "list_all (\<lambda>c. \<not> is_sep c) e"
  shows "path_join [a, b @ e] = a @ ''/'' @ b @ e"
proof -
  let ?n = "b @ e"
  have a: "a \<noteq> []" "a \<noteq> ''.''" "a \<noteq> ''..''" "list_all (\<lambda>c. \<not> is_sep c) a"
    using assms(1) by (simp_all add: plain_segment_def)
  have n: "?n \<noteq> []" "hd ?n \<noteq> CHR ''.''" "list_all (\<lambda>c. \<not> is_sep c) ?n"
    using assms(2,3) by (simp_all add: plain_id_def)
  have n2: "?n \<noteq> ''.''" "?n \<noteq> ''..''"
    using n(2) by (metis list.sel(1))+
  have split: "split_sep (a @ CHR ''/'' # ?n) = [a, ?n]"
    using a(4) n(3) by (simp only: split_sep_append split_sep_plain)
  have norm: "norm_segs True [] [a, ?n] = [a, ?n]"
    using a n(1) n2 by simp
  have hd_a: "\<not> is_sep (hd (a @ CHR ''/'' # ?n))"
    using a(1,4) by (cases a) simp_all
  have "last ?n \<in> set ?n"
    using n(1) by (rule last_in_set)
  moreover have "last (a @ CHR ''/'' # ?n) = last ?n"
    using n(1) by auto
  ultimately have last_n: "\<not> is_sep (last (a @ CHR ''/'' # ?n))"
    using n(3) by (auto simp: list_all_iff)
  have "path_normalize (a @ CHR ''/'' # ?n) = a @ CHR ''/'' # ?n"
    unfolding path_normalize_def Let_def split using hd_a last_n norm a(1)
    by simp
  then show ?thesis
    using a(1) n(1) by (simp add: path_join_def)
qed

lemma extname_png: "path_extname ''photo.png'' = ''.png''" "path_extname ''a.png'' = ''.png''"
  "path_extname ''b.png'' = ''.png''"
  by (simp_all add: path_extname_def last_component_def is_sep_def)

lemma key_pad1: "path_join [''pad1'', id1 @ ''.png''] = ''pad1/110ec58a-a0f2-4ac4-8393-c866d813b8d1.png''"
  by (simp add: path_join_def path_normalize_def is_sep_def id1_def)

lemma key_local:
  "path_join [''/tmp/up'', ''pad1/110ec58a-a0f2-4ac4-8393-c866d813b8d1.png'']
     = ''/tmp/up/pad1/110ec58a-a0f2-4ac4-8393-c866d813b8d1.png''"
  by (simp add: path_join_def path_normalize_def is_sep_def)

lemma url_files:
  "plain_URL ''pad1/110ec58a-a0f2-4ac4-8393-c866d813b8d1.png'' ''http://x/files''
     = Some ''http://x/pad1/110ec58a-a0f2-4ac4-8393-c866d813b8d1.png''"
  by (simp add: plain_URL_def strip_scheme_def plain_path_def unreserved_def lower_alpha_def
        plain_host_def plain_label_def host_char_def port_value_def port_suffix_def is_sep_def)

lemma key_dotted: "path_join [''a/../b'', id1 @ ''.png''] = ''b/110ec58a-a0f2-4ac4-8393-c866d813b8d1.png''"
  by (simp add: path_join_def path_normalize_def is_sep_def id1_def)

lemma url_localhost:
  "plain_URL ''pad1/110ec58a-a0f2-4ac4-8393-c866d813b8d1.png'' ''http://localhost:9001/files''
     = Some ''http://localhost:9001/pad1/110ec58a-a0f2-4ac4-8393-c866d813b8d1.png''"
  by (simp add: plain_URL_def strip_scheme_def plain_path_def unreserved_def lower_alpha_def
        plain_host_def plain_label_def host_char_def digit_char_def port_value_def
        port_suffix_def default_port_def is_sep_def)

section \<open>Facts about the session\<close>

lemma run_append:
  "run mkURL st padId newFileName (xs @ ys) s =
     run mkURL st padId newFileName ys (run mkURL st padId newFileName xs s)"
  by (simp add: run_def)

lemma uploadResult_on_error: "uploadResult (on_error error s) = uploadResult s"
  by (simp add: on_error_def emit_error_def done_cb_def uncaught_def perform_def Let_def
           split: sum.splits)

lemma uploadResult_on_limit: "uploadResult (on_limit s) = uploadResult s"
  by (simp add: on_limit_def emit_error_def done_cb_def uncaught_def perform_def Let_def
           split: sum.splits)

lemma uploadResult_on_finish: "uploadResult (on_finish s) = uploadResult s"
  by (simp add: on_finish_def perform_def split: option.splits promise.splits)

lemma uploadResult_step:
  "\<not> is_file_part ev \<Longrightarrow>
     uploadResult (step mkURL st padId newFileName ev s) = uploadResult s"
  by (cases ev)
     (simp_all add: uploadResult_on_error uploadResult_on_limit uploadResult_on_finish)

lemma uploadResult_run:
  "list_all (\<lambda>ev. \<not> is_file_part ev) evs \<Longrightarrow>
     uploadResult (run mkURL st padId newFileName evs s) = uploadResult s"
  by (induction evs arbitrary: s) (simp_all add: run_def uploadResult_step)

lemma on_finish_no_upload: "uploadResult s = None \<Longrightarrow> on_finish s = s"
  by (simp add: on_finish_def)

lemma falsy_statusCode:
  "\<not> truthy error \<Longrightarrow> get_prop error ''statusCode'' = Inr v \<Longrightarrow> v = JUndefined"
  by (cases error) simp_all

lemma on_error_truthy:
  "listeners s \<Longrightarrow> truthy error \<Longrightarrow> on_error error s = perform [LogError error] s"
  by (simp add: on_error_def emit_error_def done_cb_def)

lemma on_limit_listening:
  "listeners s \<Longrightarrow> on_limit s = perform [LogError file_too_large, DeletePartials] s"
  by (simp add: on_limit_def emit_error_def done_cb_def file_too_large_def perform_def)

lemma status_on_error:
  "list_all status_201_or_500 (trace s) \<Longrightarrow>
     list_all status_201_or_500 (trace (on_error error s))"
  by (auto simp: on_error_def emit_error_def done_cb_def uncaught_def perform_def Let_def
        js_or_def split: sum.splits dest: falsy_statusCode)

lemma status_on_limit:
  "list_all status_201_or_500 (trace s) \<Longrightarrow> list_all status_201_or_500 (trace (on_limit s))"
  by (auto simp: on_limit_def emit_error_def done_cb_def uncaught_def perform_def Let_def
        js_or_def split: sum.splits dest: falsy_statusCode)

lemma status_on_finish:
  "list_all status_201_or_500 (trace s) \<Longrightarrow> list_all status_201_or_500 (trace (on_finish s))"
  by (simp add: on_finish_def perform_def split: option.splits promise.splits)

lemma trace_on_file:
  "trace (on_file mkURL st padId newFileName filename mimetype p s) = trace s \<or>
   (\<exists>ex. trace (on_file mkURL st padId newFileName filename mimetype p s) = trace s @ [Uncaught ex]) \<or>
   (\<exists>key. trace (on_file mkURL st padId newFileName filename mimetype p s) = trace s @ [Upload mimetype key])"
  by (cases filename)
     (simp_all add: on_file_def Let_def uncaught_def start_upload_def perform_def
        split: option.splits sum.splits jsval.splits)

lemma status_on_file:
  "list_all status_201_or_500 (trace s) \<Longrightarrow>
     list_all status_201_or_500 (trace (on_file mkURL st padId newFileName filename mimetype p s))"
  using trace_on_file [of mkURL st padId newFileName filename mimetype p s] by auto

lemma status_step:
  "list_all status_201_or_500 (trace s) \<Longrightarrow>
     list_all status_201_or_500 (trace (step mkURL st padId newFileName ev s))"
  by (cases ev) (simp_all add: status_on_error status_on_limit status_on_finish status_on_file)

lemma status_run:
  "list_all status_201_or_500 (trace s) \<Longrightarrow>
     list_all status_201_or_500 (trace (run mkURL st padId newFileName evs s))"
  by (induction evs arbitrary: s) (simp_all add: run_def status_step)

lemma never_403:
  "Respond (JNum 403) body \<notin> set (trace (run mkURL st padId newFileName evs init_session))"
proof
  assume a: "Respond (JNum 403) body \<in> set (trace (run mkURL st padId newFileName evs init_session))"
  have "list_all status_201_or_500 (trace (run mkURL st padId newFileName evs init_session))"
    by (rule status_run) (simp add: init_session_def)
  with a show False
    by (auto simp: list_all_iff)
qed

lemma on_file_quiet:
  "listeners (on_file mkURL st padId newFileName filename mimetype p s) = listeners s \<and>
   isDone (on_file mkURL st padId newFileName filename mimetype p s) = isDone s \<and>
   (\<exists>es. trace (on_file mkURL st padId newFileName filename mimetype p s) = trace s @ es \<and>
         \<not> list_ex is_cleanup es \<and> filter is_response es = [])"
  by (cases filename)
     (simp_all add: on_file_def Let_def uncaught_def start_upload_def perform_def
        split: option.splits sum.splits jsval.splits)

lemma on_finish_quiet:
  "listeners (on_finish s) = listeners s \<and> isDone (on_finish s) = isDone s \<and>
   (\<exists>es. trace (on_finish s) = trace s @ es \<and> \<not> list_ex is_cleanup es \<and>
         length (filter is_response es) \<le> 1)"
  by (simp add: on_finish_def perform_def split: option.splits promise.splits)

lemma step_quiet:
  assumes "error_is_truthy ev" and "listeners s"
  shows "listeners (step mkURL st padId newFileName ev s) \<and>
         isDone (step mkURL st padId newFileName ev s) = isDone s \<and>
         (\<exists>es. trace (step mkURL st padId newFileName ev s) = trace s @ es \<and>
               \<not> list_ex is_cleanup es \<and>
               length (filter is_response es) \<le> (if is_finish ev then 1 else 0))"
proof (cases ev)
  case (FilePart name mime p)
  then show ?thesis
    using assms(2) on_file_quiet [of mkURL st padId newFileName "Some name" mime p s] by auto
next
  case (UnnamedFilePart mime p)
  then show ?thesis
    using assms(2) on_file_quiet [of mkURL st padId newFileName None mime p s] by auto
next
  case FileLimit
  then show ?thesis
    using assms(2) by (simp add: on_limit_listening perform_def)
next
  case (FileError error)
  then show ?thesis
    using assms by (simp add: on_error_truthy perform_def)
next
  case (ParserError error)
  then show ?thesis
    using assms by (simp add: on_error_truthy perform_def)
next
  case Finish
  then show ?thesis
    using assms(2) on_finish_quiet [of s] by simp
qed

lemma run_quiet:
  assumes "list_all error_is_truthy evs" and "listeners s"
  shows "listeners (run mkURL st padId newFileName evs s) \<and>
         isDone (run mkURL st padId newFileName evs s) = isDone s \<and>
         (\<exists>es. trace (run mkURL st padId newFileName evs s) = trace s @ es \<and>
               \<not> list_ex is_cleanup es \<and>
               length (filter is_response es) \<le> length (filter is_finish evs))"
  using assms
proof (induction evs arbitrary: s)
  case Nil
  then show ?case by (simp add: run_def)
next
  case (Cons ev evs)
  let ?s1 = "step mkURL st padId newFileName ev s"
  from Cons.prems have ev: "error_is_truthy ev" and evs: "list_all error_is_truthy evs"
    by simp_all
  from step_quiet [OF ev Cons.prems(2), of mkURL st padId newFileName]
  obtain es1 where s1: "listeners ?s1" "isDone ?s1 = isDone s" "trace ?s1 = trace s @ es1"
      "\<not> list_ex is_cleanup es1"
      "length (filter is_response es1) \<le> (if is_finish ev then 1 else 0)"
    by blast
  from Cons.IH [OF evs s1(1)]
  obtain es2 where s2: "listeners (run mkURL st padId newFileName evs ?s1)"
      "isDone (run mkURL st padId newFileName evs ?s1) = isDone ?s1"
      "trace (run mkURL st padId newFileName evs ?s1) = trace ?s1 @ es2"
      "\<not> list_ex is_cleanup es2"
      "length (filter is_response es2) \<le> length (filter is_finish evs)"
    by blast
  have run: "run mkURL st padId newFileName (ev # evs) s = run mkURL st padId newFileName evs ?s1"
    by (simp add: run_def)
  have "trace (run mkURL st padId newFileName (ev # evs) s) = trace s @ (es1 @ es2)"
    using s1(3) s2(3) run by simp
  moreover have "\<not> list_ex is_cleanup (es1 @ es2)"
    using s1(4) s2(4) by simp
  moreover have "length (filter is_response (es1 @ es2)) \<le> length (filter is_finish (ev # evs))"
    using s1(5) s2(5) by (simp split: if_splits)
  ultimately show ?case
    using s2(1,2) s1(2) run by (metis)
qed

lemma at_most_one_response:
  assumes "list_all error_is_truthy evs" and "length (filter is_finish evs) \<le> 1"
  shows "length (responses (run mkURL st padId newFileName evs init_session)) \<le> 1"
proof -
  from run_quiet [OF assms(1), of init_session mkURL st padId newFileName]
  obtain es where "trace (run mkURL st padId newFileName evs init_session) = es"
      "length (filter is_response es) \<le> length (filter is_finish evs)"
    by (auto simp: init_session_def)
  then show ?thesis
    using assms(2) by (simp add: responses_def)
qed

lemma truthy_errors_never_drain:
  assumes "list_all error_is_truthy evs"
  shows "\<not> list_ex is_cleanup (trace (run mkURL st padId newFileName evs init_session)) \<and>
         \<not> isDone (run mkURL st padId newFileName evs init_session) \<and>
         listeners (run mkURL st padId newFileName evs init_session)"
  using run_quiet [OF assms, of init_session mkURL st padId newFileName]
  by (auto simp: init_session_def)

lemma on_file_s3:
  "on_file mkURL s3_settings padId newFileName (Some name) mime p s =
     start_upload mime (path_join [padId, newFileName @ path_extname name]) p s"
  by (simp add: on_file_def Let_def s3_settings_def lookup_def)

lemma on_file_local_photo:
  "on_file plain_URL local_settings ''pad1'' id1 (Some ''photo.png'') mime p s =
     start_upload mime ''/tmp/up/pad1/110ec58a-a0f2-4ac4-8393-c866d813b8d1.png'' p
       (s\<lparr>accessPath := ''http://x/pad1/110ec58a-a0f2-4ac4-8393-c866d813b8d1.png''\<rparr>)"
  by (simp add: on_file_def Let_def local_settings_def lookup_def extname_png key_pad1 key_local
        url_files)

lemma events_photo_5000:
  "busboy_events local_settings [png_part ''photo.png'' 5000 p] =
     [FilePart ''photo.png'' ''image/png'' p, FileLimit, Finish]"
  by (simp add: busboy_events_def part_events_def fileSizeLimit_def local_settings_def
        lookup_def png_part_def)

lemma events_s3:
  "busboy_events s3_settings [png_part name 5000 p] = [FilePart name ''image/png'' p, FileLimit, Finish]"
  "busboy_events s3_settings [png_part name 5000 p, png_part name' 10 p'] =
     [FilePart name ''image/png'' p, FileLimit, FilePart name' ''image/png'' p', Finish]"
  by (simp_all add: busboy_events_def part_events_def fileSizeLimit_def s3_settings_def
        lookup_def png_part_def)

lemma events_photo_500:
  "busboy_events local_settings [png_part ''photo.png'' 500 p] = [FilePart ''photo.png'' ''image/png'' p, Finish]"
  by (simp add: busboy_events_def part_events_def fileSizeLimit_def local_settings_def
        lookup_def png_part_def)

lemma events_s3_small:
  "busboy_events s3_settings [png_part name 500 p] = [FilePart name ''image/png'' p, Finish]"
  by (simp add: busboy_events_def part_events_def fileSizeLimit_def s3_settings_def
        lookup_def png_part_def)

lemma unanswered_in_two_chunks:
  "trace (run mkURL s3_settings ''pad1'' id1
            (delivered [[FilePart ''photo.png'' ''image/png'' p, FileLimit], [Finish]])
            init_session) =
     [Upload ''image/png'' ''pad1/110ec58a-a0f2-4ac4-8393-c866d813b8d1.png'',
      LogError file_too_large, DeletePartials]"
  by (simp add: run_def on_file_s3 extname_png key_pad1 start_upload_def perform_def
        on_limit_listening init_session_def)

lemma finish_answers:
  assumes "listeners s" and "uploadResult s = Some p"
  shows "trace (step mkURL st padId newFileName Finish s) =
           trace s @
           (case p of
              Resolves data \<Rightarrow>
                [Respond (JNum 201) (if accessPath s \<noteq> [] then JStr (accessPath s) else data)]
            | Rejects err \<Rightarrow> [Respond (JNum 500) err]
            | Pending \<Rightarrow> [])"
  using assms by (simp add: on_finish_def perform_def split: promise.splits)

section \<open>Facts about the clientVars hook\<close>





lemma copy_key_storage:
  "copy_key (AList.update ''storage'' v ep) = copy_key ep"
  by (auto simp: copy_key_def lookup_def update_conv' fun_eq_iff)

lemma clientVars_hides_storage:
  assumes "truthy s1" and "truthy s2" and "get_prop s1 ''type'' = get_prop s2 ''type''"
  shows "map_sum id snd (clientVars mimetypes \<lparr>ep_image_upload = Some (AList.update ''storage'' s1 ep)\<rparr>)
       = map_sum id snd (clientVars mimetypes \<lparr>ep_image_upload = Some (AList.update ''storage'' s2 ep)\<rparr>)"
  using assms
  by (simp add: clientVars_def plugin_section_def Let_def copy_key_storage update_keys lookup_def
        update_conv' split: sum.splits)

section \<open>One outcome per request\<close>

text \<open>
  C1. The specification says: at most one response is written for a request even when several error
  events fire, and once the session has reached a terminal outcome every later event is
  a no-op. The listener \<^verbatim>\<open>done\<close> returns on line 110 for every truthy error, before
  it sets \<^verbatim>\<open>isDone\<close> and before it removes the parser's listeners, so an error is
  not terminal. In a request whose first file exceeds the limit, a second file part
  starts a second upload and \<^verbatim>\<open>finish\<close> answers 201 with the second upload's
  descriptor; and a parser error that follows the size-limit error is handled like the
  first, with \<^verbatim>\<open>isDone\<close> still unset after both.
\<close>

theorem error_is_not_terminal:
  "trace (run mkURL s3_settings ''pad1'' id1
      (busboy_events s3_settings
         [png_part ''a.png'' 5000 (Resolves d1), png_part ''b.png'' 10 (Resolves d2)])
      init_session) =
     [Upload ''image/png'' ''pad1/110ec58a-a0f2-4ac4-8393-c866d813b8d1.png'',
      LogError file_too_large, DeletePartials,
      Upload ''image/png'' ''pad1/110ec58a-a0f2-4ac4-8393-c866d813b8d1.png'',
      Respond (JNum 201) d2] \<and>
   trace (run mkURL s3_settings ''pad1'' id1
      [FilePart ''a.png'' ''image/png'' (Resolves d1), FileLimit, ParserError parse_error]
      init_session) =
     [Upload ''image/png'' ''pad1/110ec58a-a0f2-4ac4-8393-c866d813b8d1.png'',
      LogError file_too_large, DeletePartials, LogError parse_error] \<and>
   \<not> isDone (run mkURL s3_settings ''pad1'' id1
      [FilePart ''a.png'' ''image/png'' (Resolves d1), FileLimit, ParserError parse_error]
      init_session)"
  by (simp add: events_s3 run_def on_file_s3 extname_png key_pad1 start_upload_def perform_def
        on_limit_listening on_error_truthy parse_error_def on_finish_def init_session_def)

section \<open>A file above the size limit\<close>

text \<open>
  C2. The specification says: a request whose file part exceeds \<^verbatim>\<open>maxFileSize\<close> is answered with
  status 403 and a body of type \<^verbatim>\<open>fileSize\<close>, and no partial file is left. With the
  limit at 1000 bytes and a part of 5000 bytes the handler logs the error and calls
  \<^verbatim>\<open>deletePartials\<close>, but the only response is the one the \<^verbatim>\<open>finish\<close> listener
  writes: 201 with the access URL when the upload's promise resolves, 500 when it
  rejects, none while it is pending. No 403 is written.
\<close>

theorem oversized_upload_answer:
  "trace (run plain_URL local_settings ''pad1'' id1
            (busboy_events local_settings [png_part ''photo.png'' 5000 p]) init_session) =
     [Upload ''image/png'' ''/tmp/up/pad1/110ec58a-a0f2-4ac4-8393-c866d813b8d1.png'',
      LogError file_too_large, DeletePartials] @
     (case p of
        Resolves data \<Rightarrow>
          [Respond (JNum 201) (JStr ''http://x/pad1/110ec58a-a0f2-4ac4-8393-c866d813b8d1.png'')]
      | Rejects err \<Rightarrow> [Respond (JNum 500) err]
      | Pending \<Rightarrow> [])"
  by (simp add: events_photo_5000 run_def on_file_local_photo start_upload_def perform_def
        on_limit_listening on_finish_def init_session_def split: promise.splits)

section \<open>The URL of a locally stored file\<close>

text \<open>
  C3. The specification says: with local storage the descriptor is \<^verbatim>\<open>baseURL\<close>, normalised to end
  with a slash, followed by the pad, the identifier and the extension;
  \<^verbatim>\<open>http://x/files\<close> and pad \<^verbatim>\<open>pad1\<close> give \<^verbatim>\<open>http://x/files/pad1/<id>.png\<close>.
  Lines 129 to 132 compute the normalised \<^verbatim>\<open>baseURL\<close>, but line 133 resolves the
  file name against the setting as configured. For a 500-byte \<^verbatim>\<open>photo.png\<close> the
  session's access path and the body of the 201 response are
  \<^verbatim>\<open>http://x/pad1/<id>.png\<close>: the base's last segment is replaced. The third
  equation is the value the specification names.
\<close>

theorem local_url_drops_base_segment:
  "accessPath (run plain_URL local_settings ''pad1'' id1
                 (busboy_events local_settings [png_part ''photo.png'' 500 (Resolves data)]) init_session)
     = ''http://x/pad1/110ec58a-a0f2-4ac4-8393-c866d813b8d1.png'' \<and>
   responses (run plain_URL local_settings ''pad1'' id1
                 (busboy_events local_settings [png_part ''photo.png'' 500 (Resolves data)]) init_session)
     = [Respond (JNum 201) (JStr ''http://x/pad1/110ec58a-a0f2-4ac4-8393-c866d813b8d1.png'')] \<and>
   normalize_baseURL ''http://x/files'' @ ''pad1/'' @ id1 @ ''.png''
     = ''http://x/files/pad1/110ec58a-a0f2-4ac4-8393-c866d813b8d1.png''"
proof -
  have "normalize_baseURL ''http://x/files'' @ ''pad1/'' @ id1 @ ''.png''
     = ''http://x/files/pad1/110ec58a-a0f2-4ac4-8393-c866d813b8d1.png''"
    by (simp add: normalize_baseURL_def id1_def)
  then show ?thesis
    by (simp add: events_photo_500 run_def on_file_local_photo start_upload_def perform_def
          on_finish_def init_session_def responses_def)
qed

section \<open>Deleting partial data\<close>

text \<open>
  C4, as specified: partial data is deleted before the error is reported. It is
  the other way round: the \<^verbatim>\<open>limit\<close> listener emits the error to the parser's
  listener first (line 140) and calls \<^verbatim>\<open>deletePartials\<close> after (line 141). In the
  trace of an oversized file the deletion does not come before the report.
\<close>

theorem report_precedes_delete:
  "\<not> precedes DeletePartials (LogError file_too_large)
       (trace (run plain_URL local_settings ''pad1'' id1
                 [FilePart ''photo.png'' ''image/png'' Pending, FileLimit] init_session))"
  by (simp add: run_def on_file_local_photo start_upload_def perform_def
        on_limit_listening init_session_def precedes_def file_too_large_def)

text \<open>
  C4, amended. Whenever a file stream signals the size limit while the parser's listeners
  are attached, the handler first hands the size-limit error to the parser's error
  listener, which returns normally, and then invokes the delete-partials operation,
  once.
\<close>

theorem limit_reports_then_deletes:
  assumes "fileListeners s" and "listeners s"
  shows "fst (done_cb file_too_large s) = None \<and>
         step mkURL st padId newFileName FileLimit s =
           perform [DeletePartials] (snd (done_cb file_too_large s))"
  using assms
  by (simp add: on_limit_def emit_error_def done_cb_def file_too_large_def)

theorem limit_reports_then_deletes_witness:
  "fileListeners (run plain_URL s3_settings ''pad1'' id1
      [FilePart ''photo.png'' ''image/png'' Pending] init_session) \<and>
   listeners (run plain_URL s3_settings ''pad1'' id1
      [FilePart ''photo.png'' ''image/png'' Pending] init_session) \<and>
   trace (step plain_URL s3_settings ''pad1'' id1 FileLimit
            (run plain_URL s3_settings ''pad1'' id1
               [FilePart ''photo.png'' ''image/png'' Pending] init_session)) =
     [Upload ''image/png'' ''pad1/110ec58a-a0f2-4ac4-8393-c866d813b8d1.png'',
      LogError file_too_large, DeletePartials]"
proof -
  let ?s = "run plain_URL s3_settings ''pad1'' id1
              [FilePart ''photo.png'' ''image/png'' Pending] init_session"
  have s: "?s = \<lparr>isDone = False, uploadResult = Some Pending, accessPath = [],
                 listeners = True, fileListeners = True,
                 trace = [Upload ''image/png''
                            ''pad1/110ec58a-a0f2-4ac4-8393-c866d813b8d1.png'']\<rparr>"
    by (simp add: run_def on_file_s3 extname_png key_pad1 start_upload_def perform_def
          init_session_def)
  have a: "fileListeners ?s"
    by (simp add: s)
  have b: "listeners ?s"
    by (simp add: s)
  have d: "trace (snd (done_cb file_too_large ?s)) =
             [Upload ''image/png'' ''pad1/110ec58a-a0f2-4ac4-8393-c866d813b8d1.png'',
              LogError file_too_large]"
    by (simp add: s done_cb_def perform_def) (simp add: file_too_large_def)
  from limit_reports_then_deletes [OF a b, where mkURL = plain_URL and st = s3_settings
      and padId = "''pad1''" and newFileName = id1]
  have "step plain_URL s3_settings ''pad1'' id1 FileLimit ?s =
          perform [DeletePartials] (snd (done_cb file_too_large ?s))"
    by (rule conjunct2)
  then have "trace (step plain_URL s3_settings ''pad1'' id1 FileLimit ?s) =
     [Upload ''image/png'' ''pad1/110ec58a-a0f2-4ac4-8393-c866d813b8d1.png'',
      LogError file_too_large, DeletePartials]"
    by (simp only: perform_def d) simp
  with a b show ?thesis
    by (intro conjI)
qed

section \<open>The status of a failure\<close>

text \<open>
  C5. The specification says: a session that resolves is answered 201 with the descriptor
  on success, and on failure with the status of the outcome's \<^verbatim>\<open>statusCode\<close>, 500 by
  default, and the error record as body. That answer is line 116 of \<^verbatim>\<open>done\<close>, which
  no truthy error reaches because of the \<^verbatim>\<open>return\<close> on line 110. A size-limit failure
  (\<^verbatim>\<open>statusCode\<close> 403) whose upload promise resolves is answered 201 with the upload's
  descriptor by the \<^verbatim>\<open>finish\<close> listener; and that listener's \<^verbatim>\<open>catch\<close> answers a
  rejection whose \<^verbatim>\<open>statusCode\<close> is 403 with 500, where \<^verbatim>\<open>done\<close> would mirror
  the code.
\<close>

theorem failure_status_not_mirrored:
  "responses (run mkURL s3_settings ''pad1'' id1
      (busboy_events s3_settings [png_part ''photo.png'' 5000 (Resolves data)]) init_session)
     = [Respond (JNum 201) data] \<and>
   responses (run mkURL s3_settings ''pad1'' id1
      (busboy_events s3_settings [png_part ''photo.png'' 500 (Rejects access_denied)])
      init_session)
     = [Respond (JNum 500) access_denied] \<and>
   get_prop access_denied ''statusCode'' = Inr (JNum 403)"
  by (simp add: events_s3 events_s3_small run_def on_file_s3 start_upload_def perform_def
        on_limit_listening on_finish_def init_session_def responses_def access_denied_def
        lookup_def)

section \<open>Draining the request\<close>

text \<open>
  C6. The specification says: after an early failure the request is unpiped from the parser and
  drained. \<^verbatim>\<open>req.unpipe\<close> and \<^verbatim>\<open>drainStream\<close> stand on lines 117 and 118, after
  the \<^verbatim>\<open>return\<close> of line 110 that every truthy error takes. In a request whose
  file exceeds the limit the handler logs the error, deletes the partial data and, at
  \<^verbatim>\<open>finish\<close>, answers for the upload; it neither unpipes nor drains, and after
  the failure the parser keeps its listeners.
\<close>

theorem early_failure_not_drained:
  "trace (run mkURL s3_settings ''pad1'' id1
            (busboy_events s3_settings [png_part ''photo.png'' 5000 p]) init_session) =
     [Upload ''image/png'' ''pad1/110ec58a-a0f2-4ac4-8393-c866d813b8d1.png'',
      LogError file_too_large, DeletePartials] @
     (case p of
        Resolves data \<Rightarrow> [Respond (JNum 201) data]
      | Rejects err \<Rightarrow> [Respond (JNum 500) err]
      | Pending \<Rightarrow> []) \<and>
   listeners (run mkURL s3_settings ''pad1'' id1
      [FilePart ''photo.png'' ''image/png'' p, FileLimit] init_session)"
  by (simp add: events_s3 run_def on_file_s3 extname_png key_pad1 start_upload_def perform_def
        on_limit_listening on_finish_def init_session_def split: promise.splits)

section \<open>The storage key\<close>

text \<open>
  C7, as specified: for every file part the storage key is the pad identifier, a slash,
  an identifier created once per file, and the original extension. Line 123 draws the
  identifier once per request, outside the \<^verbatim>\<open>file\<close> listener: two file parts of one
  request with the same extension are stored under the same key. With local storage the
  key is a path under \<^verbatim>\<open>baseFolder\<close>. \<^verbatim>\<open>path.join\<close> normalises: the pad
  identifier \<^verbatim>\<open>a/../b\<close> gives a key under \<^verbatim>\<open>b\<close>. And a file part without a file
  name starts no upload, line 126 throws.
\<close>

theorem key_is_not_per_file:
  "trace (run plain_URL s3_settings ''pad1'' id1
      [FilePart ''a.png'' ''image/png'' Pending, FilePart ''b.png'' ''image/png'' Pending]
      init_session) =
     [Upload ''image/png'' ''pad1/110ec58a-a0f2-4ac4-8393-c866d813b8d1.png'',
      Upload ''image/png'' ''pad1/110ec58a-a0f2-4ac4-8393-c866d813b8d1.png''] \<and>
   trace (run plain_URL local_settings ''pad1'' id1
      [FilePart ''photo.png'' ''image/png'' Pending] init_session) =
     [Upload ''image/png'' ''/tmp/up/pad1/110ec58a-a0f2-4ac4-8393-c866d813b8d1.png''] \<and>
   trace (run plain_URL s3_settings ''a/../b'' id1
      [FilePart ''photo.png'' ''image/png'' Pending] init_session) =
     [Upload ''image/png'' ''b/110ec58a-a0f2-4ac4-8393-c866d813b8d1.png''] \<and>
   trace (run plain_URL s3_settings ''pad1'' id1
      [UnnamedFilePart ''application/octet-stream'' Pending] init_session) =
     [Uncaught TypeError]"
  by (simp add: run_def on_file_s3 on_file_local_photo extname_png key_pad1 key_dotted
        start_upload_def perform_def init_session_def)
     (simp add: on_file_def uncaught_def perform_def)

text \<open>
  C7, amended. For every file part that carries a file name and reaches the \<^verbatim>\<open>file\<close>
  listener (the handler's listeners are attached to the parser and the settings have an
  \<^verbatim>\<open>ep_image_upload\<close> section): when the storage type is not \<^verbatim>\<open>local\<close>, the name
  handed to the storage library is \<^verbatim>\<open>path.join\<close> of the pad identifier and the
  request's identifier followed by the extension of the original file name; when the
  storage type is \<^verbatim>\<open>local\<close>, \<^verbatim>\<open>baseURL\<close> and \<^verbatim>\<open>baseFolder\<close> are strings and the
  URL constructor accepts that name against \<^verbatim>\<open>baseURL\<close>, it is that name joined to
  \<^verbatim>\<open>baseFolder\<close>. Whenever the pad identifier is a single path segment other than
  \<^verbatim>\<open>.\<close> and \<^verbatim>\<open>..\<close> and the identifier is not empty, has no separator and no
  leading dot, the joined name is the pad identifier, a slash, the identifier and the
  extension. The identifier is the one drawn for the request, the same for all its
  file parts, and nothing of the original file name but its extension enters the key.
\<close>

theorem storage_key:
  assumes "listeners s" and "ep_image_upload st = Some ep"
  shows "(get_prop (lookup ep ''storage'') ''type'' \<noteq> Inr (JStr ''local'') \<longrightarrow>
            trace (step mkURL st padId newFileName (FilePart filename mimetype p) s) =
              trace s @
              [Upload mimetype (path_join [padId, newFileName @ path_extname filename])]) \<and>
         (get_prop (lookup ep ''storage'') ''type'' = Inr (JStr ''local'') \<and>
          get_prop (lookup ep ''storage'') ''baseURL'' = Inr (JStr b) \<and>
          mkURL (path_join [padId, newFileName @ path_extname filename]) b = Some href \<and>
          get_prop (lookup ep ''storage'') ''baseFolder'' = Inr (JStr folder) \<longrightarrow>
            trace (step mkURL st padId newFileName (FilePart filename mimetype p) s) =
              trace s @
              [Upload mimetype
                (path_join [folder, path_join [padId, newFileName @ path_extname filename]])]) \<and>
         (plain_segment padId \<and> plain_id newFileName \<longrightarrow>
            path_join [padId, newFileName @ path_extname filename] =
              padId @ ''/'' @ newFileName @ path_extname filename)"
proof -
  have key: "plain_segment padId \<and> plain_id newFileName \<longrightarrow>
               path_join [padId, newFileName @ path_extname filename] =
               padId @ ''/'' @ newFileName @ path_extname filename"
  proof
    assume "plain_segment padId \<and> plain_id newFileName"
    then have "plain_segment padId" and "plain_id newFileName"
      by simp_all
    then show "path_join [padId, newFileName @ path_extname filename] =
               padId @ ''/'' @ newFileName @ path_extname filename"
      using extname_no_sep by (rule path_join_plain)
  qed
  have local_truthy: "get_prop (lookup ep ''storage'') ''type'' = Inr (JStr ''local'') \<Longrightarrow>
      truthy (lookup ep ''storage'')"
    by (cases "lookup ep ''storage''") simp_all
  have step: "(get_prop (lookup ep ''storage'') ''type'' \<noteq> Inr (JStr ''local'') \<longrightarrow>
            trace (step mkURL st padId newFileName (FilePart filename mimetype p) s) =
              trace s @
              [Upload mimetype (path_join [padId, newFileName @ path_extname filename])]) \<and>
         (get_prop (lookup ep ''storage'') ''type'' = Inr (JStr ''local'') \<and>
          get_prop (lookup ep ''storage'') ''baseURL'' = Inr (JStr b) \<and>
          mkURL (path_join [padId, newFileName @ path_extname filename]) b = Some href \<and>
          get_prop (lookup ep ''storage'') ''baseFolder'' = Inr (JStr folder) \<longrightarrow>
            trace (step mkURL st padId newFileName (FilePart filename mimetype p) s) =
              trace s @
              [Upload mimetype
                (path_join [folder, path_join [padId, newFileName @ path_extname filename]])])"
    using assms local_truthy
    by (auto simp: on_file_def Let_def start_upload_def perform_def)
  from step key show ?thesis
    by (intro conjI) (elim conjE, assumption)+
qed

theorem storage_key_witness:
  "listeners init_session \<and>
   ep_image_upload s3_settings = Some (plugin_section s3_settings) \<and>
   ep_image_upload local_settings = Some (plugin_section local_settings) \<and>
   get_prop (lookup (plugin_section s3_settings) ''storage'') ''type'' \<noteq> Inr (JStr ''local'') \<and>
   trace (step plain_URL s3_settings ''pad1'' id1
            (FilePart ''../../etc/passwd.png'' ''image/png'' Pending) init_session) =
     [Upload ''image/png'' ''pad1/110ec58a-a0f2-4ac4-8393-c866d813b8d1.png''] \<and>
   trace (step plain_URL local_settings ''pad1'' id1
            (FilePart ''photo.png'' ''image/png'' Pending) init_session) =
     [Upload ''image/png'' ''/tmp/up/pad1/110ec58a-a0f2-4ac4-8393-c866d813b8d1.png''] \<and>
   plain_segment ''pad1'' \<and> plain_id id1 \<and>
   path_join [''pad1'', id1 @ path_extname ''photo.png''] =
     ''pad1'' @ ''/'' @ id1 @ path_extname ''photo.png''"
proof -
  have a: "listeners init_session"
    by (simp add: init_session_def)
  have b: "ep_image_upload s3_settings = Some (plugin_section s3_settings)"
    by (simp add: plugin_section_def s3_settings_def)
  have b': "ep_image_upload local_settings = Some (plugin_section local_settings)"
    by (simp add: plugin_section_def local_settings_def)
  have c: "plain_segment ''pad1''"
    by (simp add: plain_segment_def is_sep_def)
  have d: "plain_id id1"
    by (simp add: plain_id_def id1_def is_sep_def)
  have e: "get_prop (lookup (plugin_section s3_settings) ''storage'') ''type''
             \<noteq> Inr (JStr ''local'')"
    by (simp add: plugin_section_def s3_settings_def lookup_def)
  have ext: "path_extname ''../../etc/passwd.png'' = ''.png''"
    by (simp add: path_extname_def last_component_def is_sep_def)
  have l: "get_prop (lookup (plugin_section local_settings) ''storage'') ''type''
              = Inr (JStr ''local'') \<and>
           get_prop (lookup (plugin_section local_settings) ''storage'') ''baseURL''
              = Inr (JStr ''http://x/files'') \<and>
           plain_URL (path_join [''pad1'', id1 @ path_extname ''photo.png'']) ''http://x/files''
              = Some ''http://x/pad1/110ec58a-a0f2-4ac4-8393-c866d813b8d1.png'' \<and>
           get_prop (lookup (plugin_section local_settings) ''storage'') ''baseFolder''
              = Inr (JStr ''/tmp/up'')"
    by (simp add: plugin_section_def local_settings_def lookup_def extname_png key_pad1 url_files)
  note s3 = storage_key [OF a b, where mkURL = plain_URL and padId = "''pad1''"
      and newFileName = id1 and filename = "''../../etc/passwd.png''"
      and mimetype = "''image/png''" and p = Pending]
  note loc = storage_key [OF a b', where mkURL = plain_URL and padId = "''pad1''"
      and newFileName = id1 and b = "''http://x/files''"
      and href = "''http://x/pad1/110ec58a-a0f2-4ac4-8393-c866d813b8d1.png''"
      and folder = "''/tmp/up''"
      and filename = "''photo.png''" and mimetype = "''image/png''" and p = Pending]
  from s3 e
  have t1: "trace (step plain_URL s3_settings ''pad1'' id1
            (FilePart ''../../etc/passwd.png'' ''image/png'' Pending) init_session) =
     [Upload ''image/png'' ''pad1/110ec58a-a0f2-4ac4-8393-c866d813b8d1.png'']"
    by (simp add: ext key_pad1 init_session_def)
  from loc l
  have t2: "trace (step plain_URL local_settings ''pad1'' id1
            (FilePart ''photo.png'' ''image/png'' Pending) init_session) =
     [Upload ''image/png'' ''/tmp/up/pad1/110ec58a-a0f2-4ac4-8393-c866d813b8d1.png'']"
    by (simp add: extname_png key_pad1 key_local init_session_def)
  from loc c d
  have t3: "path_join [''pad1'', id1 @ path_extname ''photo.png''] =
     ''pad1'' @ ''/'' @ id1 @ path_extname ''photo.png''"
    by (elim conjE) (erule mp, intro conjI)
  show ?thesis
    by (intro conjI a b b' e t1 t2 c d t3)
qed

section \<open>What the client is shown\<close>



section \<open>The handler without a storage section\<close>

text \<open>
  C9. When \<^verbatim>\<open>settings.ep_image_upload.storage\<close> is undefined, the POST handler throws
  a \<^verbatim>\<open>TypeError\<close> while it builds the options of the uploader (reading
  \<^verbatim>\<open>storage.baseFolder\<close>): the result is the exception, never the branch that the
  test of \<^verbatim>\<open>storageConfig\<close> guards nor its silent alternative, whether or not the
  parser's constructor would have thrown; and the handler has written no response.
\<close>

theorem storage_undefined_throws:
  assumes "ep_image_upload st = Some ep" and "lookup ep ''storage'' = JUndefined"
  shows "post_handler st busboyError = Threw TypeError \<and>
         filter is_response (handled_trace (post_handler st busboyError)) = []"
  using assms by (simp add: post_handler_def)

theorem storage_undefined_throws_witness:
  "ep_image_upload \<lparr>ep_image_upload = Some [(''maxFileSize'', JNum 1000)]\<rparr>
       = Some [(''maxFileSize'', JNum 1000)] \<and>
   lookup [(''maxFileSize'', JNum 1000)] ''storage'' = JUndefined \<and>
   post_handler \<lparr>ep_image_upload = Some [(''maxFileSize'', JNum 1000)]\<rparr> None
       = Threw TypeError \<and>
   filter is_response
     (handled_trace
        (post_handler \<lparr>ep_image_upload = Some [(''maxFileSize'', JNum 1000)]\<rparr> None)) = []"
proof -
  have a: "ep_image_upload \<lparr>ep_image_upload = Some [(''maxFileSize'', JNum 1000)]\<rparr>
       = Some [(''maxFileSize'', JNum 1000)]"
    by simp
  have b: "lookup [(''maxFileSize'', JNum 1000)] ''storage'' = JUndefined"
    by (simp add: lookup_def)
  show ?thesis
    using a b storage_undefined_throws [OF a b, of None] by simp
qed

section \<open>A body without a file part\<close>

text \<open>
  C10. When the multipart body has no file part, the \<^verbatim>\<open>finish\<close> listener writes no
  response: after any events that are not file parts, \<^verbatim>\<open>finish\<close> leaves the session
  as it was, since no upload was started; and for the events of a body with no part at
  all the request ends with no response written.
\<close>

theorem finish_without_file_part:
  assumes "list_all (\<lambda>ev. \<not> is_file_part ev) evs"
  shows "run mkURL st padId newFileName (evs @ [Finish]) init_session =
           run mkURL st padId newFileName evs init_session \<and>
         responses (run mkURL st padId newFileName (busboy_events st []) init_session) = []"
proof -
  have "uploadResult (run mkURL st padId newFileName evs init_session) = None"
    using assms by (simp add: uploadResult_run init_session_def)
  then have "run mkURL st padId newFileName (evs @ [Finish]) init_session =
           run mkURL st padId newFileName evs init_session"
    by (simp add: run_append) (simp add: run_def on_finish_no_upload)
  moreover
  have "responses (run mkURL st padId newFileName (busboy_events st []) init_session) = []"
    by (simp add: busboy_events_def run_def responses_def on_finish_def init_session_def)
  ultimately show ?thesis by simp
qed

theorem finish_without_file_part_witness:
  "list_all (\<lambda>ev. \<not> is_file_part ev) [ParserError parse_error] \<and>
   run plain_URL local_settings ''pad1'' id1
       ([ParserError parse_error] @ [Finish]) init_session =
     run plain_URL local_settings ''pad1'' id1
       [ParserError parse_error] init_session \<and>
   responses (run plain_URL local_settings ''pad1'' id1
       (busboy_events local_settings []) init_session) = []"
proof -
  have a: "list_all (\<lambda>ev. \<not> is_file_part ev) [ParserError parse_error]"
    by simp
  show ?thesis
    using a finish_without_file_part [OF a, of plain_URL local_settings "''pad1''" id1]
    by simp
qed

end
